theory Spec2Isabelle
  imports Main "HOL-Library.AList" "HOL-Library.Char_ord" "HOL-Library.List_Lexorder"
begin

section \<open>Values, exceptions and calls\<close>

text \<open>
  The values that travel between the client and the remote API are JSON documents.  A
  Python dict keeps its keys in insertion order and \<^verbatim>\<open>find\<close> reads the first key
  of a response, so a dict is an association list in that order.  Numbers that are not
  integers do not occur in the code paths modelled here.
\<close>

datatype json =
    JNull
  | JBool bool
  | JInt int
  | JStr string
  | JList "json list"
  | JDict "(string \<times> json) list"

text \<open>
  The exceptions the two modules can see.  \<open>KsaNotFound\<close> and \<open>KsaBadRequest\<close> are
  \<^verbatim>\<open>keystoneauth1.exceptions.NotFound\<close> and \<^verbatim>\<open>BadRequest\<close>; \<open>NotFound\<close> and
  \<open>CommandError\<close> are \<^verbatim>\<open>osc_lib.exceptions.NotFound\<close> and the client's
  \<^verbatim>\<open>exceptions.CommandError\<close>, each with the message it was built with, two classes
  unrelated to the keystoneauth ones.  \<open>ParserError\<close> is the exit of \<^verbatim>\<open>argparse\<close> on
  a rejected command line (status 2) and \<open>HelpExit\<close> its exit after printing the help
  (status 0).  \<open>OtherError\<close> is any other exception a collaborator raises.
\<close>

datatype exc =
    KsaNotFound
  | KsaBadRequest
  | NotFound string
  | IndexError
  | KeyError string
  | TypeError
  | AttributeError string
  | RuntimeError string
  | CommandError string
  | ParserError string
  | HelpExit
  | OtherError string

text \<open>
  Every call that leaves the module is recorded, in order: the methods \<^verbatim>\<open>APIv2\<close>
  inherits from \<^verbatim>\<open>osc_lib.api.api.BaseAPI\<close>, the calls of the volume client, and the
  messages written to the application log.
\<close>

datatype call =
    Request string string "json option"
  | ListCall string "(string \<times> json) list"
  | CreateCall string json
  | DeleteCall string
  | VolumeTypesCreate string "string option" "(string \<times> json) list"
  | VolumeTypesList
  | VolumeTypesUpdate json "(string \<times> json) list"
  | VolumeTypesDelete json
  | FindResource json
  | SetKeys json "(string \<times> string) list"
  | UnsetKeys json json
  | LogError string

type_synonym 'a outcome = "(exc + 'a) \<times> call list"

subsection \<open>Python on these values\<close>

text \<open>Truth value testing, as \<^verbatim>\<open>if v\<close> does it.\<close>

fun truthy :: "json \<Rightarrow> bool" where
  "truthy JNull = False"
| "truthy (JBool b) = b"
| "truthy (JInt i) = (i \<noteq> 0)"
| "truthy (JStr s) = (s \<noteq> [])"
| "truthy (JList xs) = (xs \<noteq> [])"
| "truthy (JDict d) = (d \<noteq> [])"

text \<open>
  \<^verbatim>\<open>x[k]\<close> with a string key: a dict answers or raises \<^verbatim>\<open>KeyError\<close>, every other
  value raises \<^verbatim>\<open>TypeError\<close>.
\<close>

definition subscript :: "json \<Rightarrow> string \<Rightarrow> exc + json" where
  "subscript x k =
     (case x of
        JDict d \<Rightarrow> (case map_of d k of Some v \<Rightarrow> Inr v | None \<Rightarrow> Inl (KeyError k))
      | _ \<Rightarrow> Inl TypeError)"

text \<open>
  \<^verbatim>\<open>d.pop(k)\<close> on a dict: the value is returned and the key is gone, or
  \<^verbatim>\<open>KeyError\<close>.
\<close>

definition dict_pop :: "string \<Rightarrow> (string \<times> json) list \<Rightarrow> exc + json \<times> (string \<times> json) list" where
  "dict_pop k d =
     (case map_of d k of
        None \<Rightarrow> Inl (KeyError k)
      | Some v \<Rightarrow> Inr (v, filter (\<lambda>kv. fst kv \<noteq> k) d))"

section \<open>The compute API (\<^verbatim>\<open>openstackclient/api/compute_v2.py\<close>)\<close>

text \<open>
  \<^verbatim>\<open>APIv2\<close> extends \<^verbatim>\<open>BaseAPI\<close> of osc-lib, which is not part of this repository.
  The inherited methods that reach the network are the fields of \<open>api\<close>: each answers
  a call with a value or with the exception it raises.  \<open>request\<close> is
  \<^verbatim>\<open>self._request(method, url, json=body).json()\<close>, \<open>list_call\<close> is
  \<^verbatim>\<open>self.list(path, **params)\<close>; \<open>text_of\<close> is what \<^verbatim>\<open>%s\<close> prints for a value that
  is not a string.
\<close>

record api =
  request :: "string \<Rightarrow> string \<Rightarrow> json option \<Rightarrow> exc + json"
  list_call :: "string \<Rightarrow> (string \<times> json) list \<Rightarrow> exc + json"
  create_call :: "string \<Rightarrow> json \<Rightarrow> exc + json"
  delete_call :: "string \<Rightarrow> exc + json"
  text_of :: "json \<Rightarrow> string"

definition fmt :: "api \<Rightarrow> json \<Rightarrow> string" where
  "fmt a v = (case v of JStr s \<Rightarrow> s | _ \<Rightarrow> text_of a v)"

text \<open>
  The fallback search of \<^verbatim>\<open>find\<close> is \<^verbatim>\<open>find_one\<close>, which \<^verbatim>\<open>APIv2\<close> inherits
  with \<^verbatim>\<open>find_bulk\<close> from \<^verbatim>\<open>BaseAPI\<close> (\<^verbatim>\<open>osc_lib/api/api.py\<close>).  Both work on
  the listing alone and are written out here as that library has them.

  \<^verbatim>\<open>for o in items\<close>: a list gives its elements, a dict its keys, a string its
  characters; nothing else can be iterated.
\<close>

definition iterate :: "json \<Rightarrow> exc + json list" where
  "iterate items =
     (case items of
        JList xs \<Rightarrow> Inr xs
      | JDict d \<Rightarrow> Inr (map (\<lambda>kv. JStr (fst kv)) d)
      | JStr s \<Rightarrow> Inr (map (\<lambda>c. JStr [c]) s)
      | _ \<Rightarrow> Inl TypeError)"

text \<open>
  \<^verbatim>\<open>all(o[attr] == kwargs[attr] for attr in kwargs.keys())\<close>: the attributes are
  tried in turn up to the first that differs; \<^verbatim>\<open>o[attr]\<close> may raise.
\<close>

fun matches :: "json \<Rightarrow> (string \<times> string) list \<Rightarrow> exc + bool" where
  "matches ob [] = Inr True"
| "matches ob ((attr, v) # kwargs) =
     (case subscript ob attr of
        Inl e \<Rightarrow> Inl e
      | Inr x \<Rightarrow> if x = JStr v then matches ob kwargs else Inr False)"

text \<open>
  The loop of \<^verbatim>\<open>find_bulk\<close>: an item that matches is kept, an item that lacks an
  attribute (\<^verbatim>\<open>KeyError\<close>) is passed over, any other exception ends the loop.
\<close>

fun select :: "json list \<Rightarrow> (string \<times> string) list \<Rightarrow> exc + json list" where
  "select [] kwargs = Inr []"
| "select (ob # items) kwargs =
     (case matches ob kwargs of
        Inl (KeyError k) \<Rightarrow> select items kwargs
      | Inl e \<Rightarrow> Inl e
      | Inr keep \<Rightarrow>
          (case select items kwargs of
             Inl e \<Rightarrow> Inl e
           | Inr ret \<Rightarrow> Inr (if keep then ob # ret else ret)))"

text \<open>
  \<^verbatim>\<open>BaseAPI.find_bulk\<close>: the whole collection is listed, the enclosing dict is
  stripped off, and the items are filtered locally.
\<close>

definition find_bulk :: "api \<Rightarrow> string \<Rightarrow> (string \<times> string) list \<Rightarrow> json list outcome" where
  "find_bulk a path kwargs =
     (let listed = ListCall path []
      in case list_call a path [] of
           Inl e \<Rightarrow> (Inl e, [listed])
         | Inr items \<Rightarrow>
             (case (case items of
                      JDict d \<Rightarrow>
                        (case map fst d of
                           [] \<Rightarrow> Inl IndexError
                         | key # _ \<Rightarrow> subscript items key)
                    | _ \<Rightarrow> Inr items) of
                Inl e \<Rightarrow> (Inl e, [listed])
              | Inr stripped \<Rightarrow>
                  (case iterate stripped of
                     Inl e \<Rightarrow> (Inl e, [listed])
                   | Inr obs \<Rightarrow> (select obs kwargs, [listed]))))"

text \<open>
  \<^verbatim>\<open>BaseAPI.find_one\<close>: no match raises \<^verbatim>\<open>osc_lib.exceptions.NotFound\<close> with
  the message \<^verbatim>\<open>none found\<close>, several raise \<^verbatim>\<open>RuntimeError\<close>, a single one is
  returned.
\<close>

definition find_one :: "api \<Rightarrow> string \<Rightarrow> (string \<times> string) list \<Rightarrow> json outcome" where
  "find_one a path kwargs =
     (case find_bulk a path kwargs of
        (Inl e, t) \<Rightarrow> (Inl e, t)
      | (Inr bulk_list, t) \<Rightarrow>
          (case bulk_list of
             [] \<Rightarrow> (Inl (NotFound ''none found''), t)
           | [found] \<Rightarrow> (Inr found, t)
           | _ \<Rightarrow> (Inl (RuntimeError ''many found''), t)))"

text \<open>
  \<^verbatim>\<open>APIv2.find\<close>.  The identifier is a string, as the docstring has it; \<^verbatim>\<open>attr\<close>
  defaults to \<^verbatim>\<open>None\<close>, and then \<^verbatim>\<open>**{None: value}\<close> raises \<^verbatim>\<open>TypeError\<close>.
  The \<^verbatim>\<open>try\<close> block covers the request, the decoding and the stripping of the
  enclosing dict; only the two keystoneauth exceptions reach the handler.  The message
  is the one of the untranslated catalogue.
\<close>

definition find :: "api \<Rightarrow> string \<Rightarrow> string \<Rightarrow> string option \<Rightarrow> json outcome" where
  "find a path value attr =
     (let url = ''/'' @ path @ ''/'' @ value;
          direct = Request ''GET'' url None;
          tried =
            (case request a ''GET'' url None of
               Inl e \<Rightarrow> Inl e
             | Inr ret \<Rightarrow>
                 (case ret of
                    JDict d \<Rightarrow>
                      (case map fst d of
                         [] \<Rightarrow> Inl IndexError
                       | key # _ \<Rightarrow> subscript ret key)
                  | _ \<Rightarrow> Inr ret))
      in case tried of
           Inr ret \<Rightarrow> (Inr ret, [direct])
         | Inl e \<Rightarrow>
             if e = KsaNotFound \<or> e = KsaBadRequest then
               (case attr of
                  None \<Rightarrow> (Inl TypeError, [direct])
                | Some at \<Rightarrow>
                    (let kwargs = [(at, value)]
                     in case find_one a path kwargs of
                          (Inr ret, t) \<Rightarrow> (Inr ret, direct # t)
                        | (Inl e', t) \<Rightarrow>
                            if e' = KsaNotFound
                            then (Inl (NotFound (value @ '' not found'')), direct # t)
                            else (Inl e', direct # t)))
             else (Inl e, [direct]))"

text \<open>\<^verbatim>\<open>APIv2.security_group_create\<close>.\<close>

definition security_group_create :: "api \<Rightarrow> json \<Rightarrow> json \<Rightarrow> json outcome" where
  "security_group_create a name description =
     (let url = ''/os-security-groups'';
          params = [(''name'', name), (''description'', description)];
          body = JDict [(''security_group'', JDict params)]
      in case create_call a url body of
           Inl e \<Rightarrow> (Inl e, [CreateCall url body])
         | Inr r \<Rightarrow> (subscript r ''security_group'', [CreateCall url body]))"

text \<open>\<^verbatim>\<open>APIv2.security_group_delete\<close>.\<close>

definition security_group_delete :: "api \<Rightarrow> string \<Rightarrow> json outcome" where
  "security_group_delete a security_group =
     (let url = ''/os-security-groups''
      in case find a url security_group (Some ''name'') of
           (Inl e, t) \<Rightarrow> (Inl e, t)
         | (Inr found, t) \<Rightarrow>
             (case subscript found ''id'' of
                Inl e \<Rightarrow> (Inl e, t)
              | Inr ident \<Rightarrow>
                  if ident \<noteq> JNull then
                    (let target = ''/'' @ url @ ''/'' @ fmt a ident
                     in (delete_call a target, t @ [DeleteCall target]))
                  else (Inr JNull, t)))"

text \<open>\<^verbatim>\<open>APIv2.security_group_find\<close>.\<close>

definition security_group_find :: "api \<Rightarrow> string \<Rightarrow> json outcome" where
  "security_group_find a security_group =
     find a ''/os-security-groups'' security_group (Some ''name'')"

text \<open>
  \<^verbatim>\<open>APIv2.security_group_list\<close>.  \<^verbatim>\<open>limit\<close> and \<^verbatim>\<open>marker\<close> default to
  \<^verbatim>\<open>None\<close> (\<open>JNull\<close>), \<^verbatim>\<open>search_opts\<close> to \<^verbatim>\<open>None\<close>.
\<close>

definition security_group_list ::
  "api \<Rightarrow> json \<Rightarrow> json \<Rightarrow> (string \<times> json) list option \<Rightarrow> json outcome" where
  "security_group_list a limit marker search_opts =
     (let params0 = (case search_opts of
                       None \<Rightarrow> []
                     | Some opts \<Rightarrow> filter (\<lambda>kv. truthy (snd kv)) opts);
          params1 = (if truthy limit then AList.update ''limit'' limit params0 else params0);
          params = (if truthy marker then AList.update ''offset'' marker params1 else params1);
          url = ''/os-security-groups''
      in case list_call a url params of
           Inl e \<Rightarrow> (Inl e, [ListCall url params])
         | Inr r \<Rightarrow> (subscript r ''security_groups'', [ListCall url params]))"

text \<open>
  The loop of \<^verbatim>\<open>security_group_set\<close> over \<^verbatim>\<open>params.items()\<close>: a value is set
  only where the key is already present.
\<close>

fun merge_params :: "(string \<times> json) list \<Rightarrow> (string \<times> json) list \<Rightarrow> (string \<times> json) list" where
  "merge_params security_group [] = security_group"
| "merge_params security_group ((k, v) # params) =
     merge_params
       (if k \<in> set (map fst security_group) then AList.update k v security_group
        else security_group)
       params"

text \<open>
  \<^verbatim>\<open>APIv2.security_group_set\<close>.  \<^verbatim>\<open>**params\<close> is always a dict, so the first
  \<^verbatim>\<open>return None\<close> is never taken.  A found value that is neither \<^verbatim>\<open>None\<close> nor a
  dict raises \<^verbatim>\<open>TypeError\<close>, in the loop or at \<^verbatim>\<open>security_group['id']\<close>, before any
  request.
\<close>

definition security_group_set :: "api \<Rightarrow> string \<Rightarrow> (string \<times> json) list \<Rightarrow> json outcome" where
  "security_group_set a security_group params =
     (let url = ''/os-security-groups''
      in case find a url security_group (Some ''name'') of
           (Inl e, t) \<Rightarrow> (Inl e, t)
         | (Inr found, t) \<Rightarrow>
             (case found of
                JNull \<Rightarrow> (Inr JNull, t)
              | JDict d \<Rightarrow>
                  (let merged = JDict (merge_params d params)
                   in case subscript merged ''id'' of
                        Inl e \<Rightarrow> (Inl e, t)
                      | Inr ident \<Rightarrow>
                          (let target = ''/'' @ url @ ''/'' @ fmt a ident;
                               body = JDict [(''security_group'', merged)];
                               put = Request ''PUT'' target (Some body)
                           in case request a ''PUT'' target (Some body) of
                                Inl e \<Rightarrow> (Inl e, t @ [put])
                              | Inr r \<Rightarrow> (subscript r ''security_group'', t @ [put])))
              | _ \<Rightarrow> (Inl TypeError, t)))"

section \<open>The volume type commands (\<^verbatim>\<open>openstackclient/volume/v2/volume_type.py\<close>)\<close>

text \<open>
  A volume type as the volume client hands it out: its \<^verbatim>\<open>id\<close> attribute and its
  \<^verbatim>\<open>_info\<close> dict.
\<close>

record volume_type =
  vt_id :: json
  vt_info :: "(string \<times> json) list"

text \<open>
  What the commands call and do not define: the manager \<^verbatim>\<open>volume_client.volume_types\<close>
  and the methods \<^verbatim>\<open>set_keys\<close> and \<^verbatim>\<open>unset_keys\<close> of a volume type (cinderclient),
  and \<^verbatim>\<open>find_resource\<close>, \<^verbatim>\<open>format_dict\<close> and \<^verbatim>\<open>get_item_properties\<close> of
  \<^verbatim>\<open>openstackclient.common.utils\<close>, whose source is not at hand.  Each is a field of
  \<open>volume_client\<close>; a call answers with a value or with the exception it raises.
\<close>

record volume_client =
  volume_types_create :: "string \<Rightarrow> string option \<Rightarrow> (string \<times> json) list \<Rightarrow> exc + volume_type"
  volume_types_list :: "exc + volume_type list"
  volume_types_update :: "json \<Rightarrow> (string \<times> json) list \<Rightarrow> exc + unit"
  volume_types_delete :: "json \<Rightarrow> exc + unit"
  find_resource :: "json \<Rightarrow> exc + volume_type"
  set_keys :: "volume_type \<Rightarrow> (string \<times> string) list \<Rightarrow> exc + json"
  unset_keys :: "volume_type \<Rightarrow> json \<Rightarrow> exc + unit"
  format_dict :: "json \<Rightarrow> json"
  get_item_properties :: "volume_type \<Rightarrow> string list \<Rightarrow> (string \<times> (json \<Rightarrow> json)) list \<Rightarrow> json list"

text \<open>
  \<^verbatim>\<open>zip(*sorted(six.iteritems(info)))\<close>: the items in the order of their keys, then
  transposed into the tuple of the keys and the tuple of the values; \<^verbatim>\<open>zip()\<close> of no
  row at all is empty (\<open>None\<close>).  The keys of a dict are distinct, so the order of the
  items is the order of the keys.
\<close>

definition show_one :: "(string \<times> json) list \<Rightarrow> (string list \<times> json list) option" where
  "show_one info =
     (let rows = sort_key fst info
      in if rows = [] then None else Some (map fst rows, map snd rows))"

subsection \<open>\<^verbatim>\<open>CreateVolumeType\<close>\<close>

text \<open>
  The namespace the parser of \<^verbatim>\<open>CreateVolumeType\<close> builds; \<open>public_flag\<close> and
  \<open>private_flag\<close> are its attributes \<^verbatim>\<open>public\<close> and \<^verbatim>\<open>private\<close>.
\<close>

record create_args =
  name :: string
  description :: "string option"
  public_flag :: bool
  private_flag :: bool
  property :: "(string \<times> string) list option"

text \<open>The keyword arguments of the create call, from the two flags.\<close>

definition create_kwargs :: "create_args \<Rightarrow> (string \<times> json) list" where
  "create_kwargs parsed_args =
     (let kwargs0 = [];
          kwargs1 = (if public_flag parsed_args
                     then AList.update ''is_public'' (JBool True) kwargs0 else kwargs0)
      in if private_flag parsed_args
         then AList.update ''is_public'' (JBool False) kwargs1 else kwargs1)"

text \<open>
  \<^verbatim>\<open>CreateVolumeType.take_action\<close>.  \<^verbatim>\<open>if parsed_args.property\<close> is false for
  \<^verbatim>\<open>None\<close> and for the empty dict.  The decorator \<^verbatim>\<open>utils.log_method\<close> only
  writes debug messages and is left out, here and below.
\<close>

definition CreateVolumeType_take_action ::
  "volume_client \<Rightarrow> create_args \<Rightarrow> (string list \<times> json list) option outcome" where
  "CreateVolumeType_take_action volume_client parsed_args =
     (let kwargs = create_kwargs parsed_args;
          created = VolumeTypesCreate (create_args.name parsed_args)
                      (create_args.description parsed_args) kwargs
      in case volume_types_create volume_client (create_args.name parsed_args)
                (create_args.description parsed_args) kwargs of
           Inl e \<Rightarrow> (Inl e, [created])
         | Inr volume_type \<Rightarrow>
             (case dict_pop ''extra_specs'' (vt_info volume_type) of
                Inl e \<Rightarrow> (Inl e, [created])
              | Inr (_, info) \<Rightarrow>
                  (case create_args.property parsed_args of
                     None \<Rightarrow> (Inr (show_one info), [created])
                   | Some props \<Rightarrow>
                       if props = [] then (Inr (show_one info), [created])
                       else
                         (let keyed = SetKeys (vt_id volume_type) props
                          in case set_keys volume_client (volume_type\<lparr>vt_info := info\<rparr>) props of
                               Inl e \<Rightarrow> (Inl e, [created, keyed])
                             | Inr result \<Rightarrow>
                                 (Inr (show_one
                                         (AList.update ''properties''
                                            (format_dict volume_client result) info)),
                                  [created, keyed])))))"

subsection \<open>\<^verbatim>\<open>DeleteVolumeType\<close>\<close>

text \<open>
  \<^verbatim>\<open>DeleteVolumeType.take_action\<close>, on the \<^verbatim>\<open>volume_type\<close> attribute of its
  namespace.  The line it writes to the command's own logger is left out.
\<close>

definition DeleteVolumeType_take_action :: "volume_client \<Rightarrow> string \<Rightarrow> unit outcome" where
  "DeleteVolumeType_take_action volume_client volume_type_arg =
     (let looked = FindResource (JStr volume_type_arg)
      in case find_resource volume_client (JStr volume_type_arg) of
           Inl e \<Rightarrow> (Inl e, [looked])
         | Inr volume_type \<Rightarrow>
             (case volume_types_delete volume_client (vt_id volume_type) of
                Inl e \<Rightarrow> (Inl e, [looked, VolumeTypesDelete (vt_id volume_type)])
              | Inr _ \<Rightarrow> (Inr (), [looked, VolumeTypesDelete (vt_id volume_type)])))"

subsection \<open>\<^verbatim>\<open>ListVolumeType\<close>\<close>

text \<open>The two column lists of \<^verbatim>\<open>ListVolumeType.take_action\<close>: the attributes read and the headers shown.\<close>

definition list_columns :: "bool \<Rightarrow> string list \<times> string list" where
  "list_columns long =
     (if long
      then ([''ID'', ''Name'', ''Description'', ''Extra Specs''],
            [''ID'', ''Name'', ''Description'', ''Properties''])
      else ([''ID'', ''Name''], [''ID'', ''Name'']))"

text \<open>
  \<^verbatim>\<open>ListVolumeType.take_action\<close>: the headers and one row for each volume type of the
  listing.
\<close>

definition ListVolumeType_take_action ::
  "volume_client \<Rightarrow> bool \<Rightarrow> (string list \<times> json list list) outcome" where
  "ListVolumeType_take_action volume_client long =
     (let (columns, column_headers) = list_columns long
      in case volume_types_list volume_client of
           Inl e \<Rightarrow> (Inl e, [VolumeTypesList])
         | Inr data \<Rightarrow>
             (Inr (column_headers,
                   map (\<lambda>s. get_item_properties volume_client s columns
                               [(''Extra Specs'', format_dict volume_client)]) data),
              [VolumeTypesList]))"

subsection \<open>\<^verbatim>\<open>SetVolumeType\<close>\<close>

text \<open>The namespace the parser of \<^verbatim>\<open>SetVolumeType\<close> builds.\<close>

record set_args =
  volume_type :: string
  name :: "string option"
  description :: "string option"
  property :: "(string \<times> string) list option"

text \<open>Truth of an optional string and of an optional dict: \<^verbatim>\<open>None\<close> and the empty value are false.\<close>

definition given_str :: "string option \<Rightarrow> bool" where
  "given_str x = (case x of None \<Rightarrow> False | Some s \<Rightarrow> s \<noteq> [])"

definition given_dict :: "(string \<times> string) list option \<Rightarrow> bool" where
  "given_dict x = (case x of None \<Rightarrow> False | Some d \<Rightarrow> d \<noteq> [])"

definition set_kwargs :: "set_args \<Rightarrow> (string \<times> json) list" where
  "set_kwargs parsed_args =
     (let kwargs0 = [];
          kwargs1 = (case set_args.name parsed_args of
                       None \<Rightarrow> kwargs0
                     | Some n \<Rightarrow> if n \<noteq> [] then AList.update ''name'' (JStr n) kwargs0
                                else kwargs0)
      in case set_args.description parsed_args of
           None \<Rightarrow> kwargs1
         | Some d \<Rightarrow> if d \<noteq> [] then AList.update ''description'' (JStr d) kwargs1
                    else kwargs1)"

text \<open>
  \<^verbatim>\<open>SetVolumeType.take_action\<close>.  The volume type that was found is \<open>vtype\<close> here,
  since \<open>volume_type\<close> names the attribute of the namespace.
\<close>

definition SetVolumeType_take_action :: "volume_client \<Rightarrow> set_args \<Rightarrow> unit outcome" where
  "SetVolumeType_take_action volume_client parsed_args =
     (let looked = FindResource (JStr (set_args.volume_type parsed_args))
      in case find_resource volume_client (JStr (set_args.volume_type parsed_args)) of
           Inl e \<Rightarrow> (Inl e, [looked])
         | Inr vtype \<Rightarrow>
             if \<not> given_str (set_args.name parsed_args)
                \<and> \<not> given_str (set_args.description parsed_args)
                \<and> \<not> given_dict (set_args.property parsed_args)
             then (Inr (), [looked, LogError (''No changes requested'' @ [CHR 0x0A])])
             else
               (let kwargs = set_kwargs parsed_args;
                    changed = VolumeTypesUpdate (vt_id vtype) kwargs;
                    updated =
                      (if kwargs \<noteq> []
                       then (case volume_types_update volume_client (vt_id vtype) kwargs of
                               Inl e \<Rightarrow> (Inl e, [looked, changed])
                             | Inr _ \<Rightarrow> (Inr (), [looked, changed]))
                       else (Inr (), [looked]))
                in case updated of
                     (Inl e, t) \<Rightarrow> (Inl e, t)
                   | (Inr _, t) \<Rightarrow>
                       (case set_args.property parsed_args of
                          None \<Rightarrow> (Inr (), t)
                        | Some props \<Rightarrow>
                            if props = [] then (Inr (), t)
                            else
                              (case set_keys volume_client vtype props of
                                 Inl e \<Rightarrow> (Inl e, t @ [SetKeys (vt_id vtype) props])
                               | Inr _ \<Rightarrow> (Inr (), t @ [SetKeys (vt_id vtype) props])))))"

subsection \<open>\<^verbatim>\<open>ShowVolumeType\<close>\<close>

text \<open>
  \<^verbatim>\<open>ShowVolumeType.take_action\<close>, on the \<^verbatim>\<open>volume_type\<close> attribute of its
  namespace; the debug line is left out.
\<close>

definition ShowVolumeType_take_action ::
  "volume_client \<Rightarrow> string \<Rightarrow> (string list \<times> json list) option outcome" where
  "ShowVolumeType_take_action volume_client volume_type_arg =
     (let looked = FindResource (JStr volume_type_arg)
      in case find_resource volume_client (JStr volume_type_arg) of
           Inl e \<Rightarrow> (Inl e, [looked])
         | Inr vtype \<Rightarrow>
             (case dict_pop ''extra_specs'' (vt_info vtype) of
                Inl e \<Rightarrow> (Inl e, [looked])
              | Inr (extra_specs, info) \<Rightarrow>
                  (let properties = format_dict volume_client extra_specs
                   in (Inr (show_one (AList.update ''properties'' properties info)), [looked]))))"

subsection \<open>\<^verbatim>\<open>UnsetVolumeType\<close>\<close>

text \<open>
  The parser of this command is part of what it promises, so the part of the standard
  library's \<^verbatim>\<open>argparse\<close> that it uses is modelled.  A command line is a list of
  strings, read as \<^verbatim>\<open>argparse\<close> first reads them: a string that begins with a dash
  is an option string, cut at its first \<^verbatim>\<open>=\<close> if it has one (\<open>Opt\<close>, with the text
  after the \<^verbatim>\<open>=\<close>); any other string is an argument (\<open>Arg\<close>), and so are a lone dash,
  a negative number, a string with a space in it that names no option, and everything
  after \<^verbatim>\<open>--\<close>.
\<close>

datatype token = Arg string | Opt string "string option"

text \<open>
  An argument of a parser: its option strings (none for a positional), its
  destination, its action, its default (\<open>None\<close> when the namespace gets no attribute
  for it) and whether it is required.  The two actions that occur are the default one,
  which stores one string, and the help action.
\<close>

datatype action = Store | Help

record argument =
  option_strings :: "string list"
  dest :: string
  arg_action :: action
  arg_default :: "json option"
  arg_required :: bool

text \<open>
  What an option string stands for.  An option string of the parser stands for itself.
  Otherwise a string that begins with two dashes stands for the option it is the
  beginning of; a string with one dash stands for the one-letter option it begins with,
  the rest being that option's argument, or for an option it is the beginning of.
  Several candidates are an error; none leaves the string unrecognised.
\<close>

datatype resolved = Unknown | Ambiguous | Known argument "string option"

definition exact :: "argument list \<Rightarrow> string \<Rightarrow> argument list" where
  "exact parser opt = filter (\<lambda>a. opt \<in> set (option_strings a)) parser"

definition abbreviations :: "argument list \<Rightarrow> string \<Rightarrow> (argument \<times> string option) list" where
  "abbreviations parser opt =
     concat (map (\<lambda>a. concat (map (\<lambda>s.
         if take 2 opt = ''--''
         then (if take (length opt) s = opt then [(a, None)] else [])
         else if s = take 2 opt then [(a, Some (drop 2 opt))]
         else if take (length opt) s = opt then [(a, None)]
         else []) (option_strings a))) parser)"

definition resolve :: "argument list \<Rightarrow> string \<Rightarrow> resolved" where
  "resolve parser opt =
     (case exact parser opt of
        a # _ \<Rightarrow> Known a None
      | [] \<Rightarrow>
          (case abbreviations parser opt of
             [] \<Rightarrow> Unknown
           | [(a, short)] \<Rightarrow> Known a short
           | _ \<Rightarrow> Ambiguous))"

text \<open>The explicit argument of an option: what was glued to a one-letter option, then what followed \<^verbatim>\<open>=\<close>.\<close>

definition explicit_arg :: "string option \<Rightarrow> string option \<Rightarrow> string option" where
  "explicit_arg short e =
     (case short of
        None \<Rightarrow> e
      | Some x \<Rightarrow> Some (x @ (case e of None \<Rightarrow> [] | Some v \<Rightarrow> ''='' @ v)))"

text \<open>
  The strings are consumed from left to right.  The state is the namespace, the
  destinations of the positionals still to be filled, the destinations of the options
  seen, and whether a string was left over.  An argument fills the next positional or
  is left over.  An unrecognised option string is left over.  A storing option takes
  its explicit argument, or else the argument that follows it, and fails when there is
  neither.  The help option prints the help and leaves at once; with an explicit
  argument it is an error.  Every error is \<^verbatim>\<open>parser.error\<close>, which leaves the
  program.
\<close>

fun consume ::
  "argument list \<Rightarrow> token list \<Rightarrow> (string \<times> json) list \<times> string list \<times> string list \<times> bool \<Rightarrow>
   exc + (string \<times> json) list \<times> string list \<times> string list \<times> bool" where
  "consume parser [] state = Inr state"
| "consume parser (Arg s # rest) (namespace, positionals, seen, extras) =
     (case positionals of
        [] \<Rightarrow> consume parser rest (namespace, positionals, seen, True)
      | d # others \<Rightarrow>
          consume parser rest (AList.update d (JStr s) namespace, others, seen, extras))"
| "consume parser (Opt opt e # rest) (namespace, positionals, seen, extras) =
     (case resolve parser opt of
        Unknown \<Rightarrow> consume parser rest (namespace, positionals, seen, True)
      | Ambiguous \<Rightarrow> Inl (ParserError ''ambiguous option'')
      | Known a short \<Rightarrow>
          (case arg_action a of
             Help \<Rightarrow>
               (case explicit_arg short e of
                  None \<Rightarrow> Inl HelpExit
                | Some x \<Rightarrow> Inl (ParserError ''ignored explicit argument''))
           | Store \<Rightarrow>
               (case explicit_arg short e of
                  Some v \<Rightarrow>
                    consume parser rest
                      (AList.update (dest a) (JStr v) namespace, positionals, dest a # seen, extras)
                | None \<Rightarrow>
                    (case rest of
                       Arg v # rest' \<Rightarrow>
                         consume parser rest'
                           (AList.update (dest a) (JStr v) namespace, positionals,
                            dest a # seen, extras)
                     | _ \<Rightarrow> Inl (ParserError ''expected one argument'')))))"

text \<open>
  \<^verbatim>\<open>parse_args\<close>: the namespace starts with the defaults; after the last string a
  positional still to be filled, a required option not seen, or a string left over is
  an error.
\<close>

definition parse_args :: "argument list \<Rightarrow> token list \<Rightarrow> exc + (string \<times> json) list" where
  "parse_args parser argv =
     (let defaults = concat (map (\<lambda>a. case arg_default a of
                                        None \<Rightarrow> []
                                      | Some v \<Rightarrow> [(dest a, v)]) parser);
          positionals = map dest (filter (\<lambda>a. option_strings a = []) parser)
      in case consume parser argv (defaults, positionals, [], False) of
           Inl e \<Rightarrow> Inl e
         | Inr (namespace, missing, seen, extras) \<Rightarrow>
             if missing \<noteq> [] then Inl (ParserError ''too few arguments'')
             else if list_ex (\<lambda>a. option_strings a \<noteq> [] \<and> arg_required a
                                    \<and> dest a \<notin> set seen) parser
             then Inl (ParserError ''argument is required'')
             else if extras then Inl (ParserError ''unrecognized arguments'')
             else Inr namespace)"

text \<open>
  The parser of the base class, \<^verbatim>\<open>argparse.ArgumentParser\<close> as it is made, has the
  help option and nothing else.
\<close>

definition Command_get_parser :: "argument list" where
  "Command_get_parser =
     [\<lparr>option_strings = [''-h'', ''--help''], dest = ''help'', arg_action = Help,
       arg_default = None, arg_required = False\<rparr>]"

text \<open>
  \<^verbatim>\<open>UnsetVolumeType.get_parser\<close> adds the positional \<^verbatim>\<open>volume_type\<close> and the option
  \<^verbatim>\<open>--property\<close>, with \<^verbatim>\<open>default=[]\<close> and \<^verbatim>\<open>required=True\<close> and no action of
  its own.
\<close>

definition UnsetVolumeType_get_parser :: "argument list" where
  "UnsetVolumeType_get_parser =
     Command_get_parser @
     [\<lparr>option_strings = [], dest = ''volume_type'', arg_action = Store,
       arg_default = Some JNull, arg_required = True\<rparr>,
      \<lparr>option_strings = [''--property''], dest = ''property'', arg_action = Store,
       arg_default = Some (JList []), arg_required = True\<rparr>]"

text \<open>Reading an attribute of a namespace.\<close>

definition getattr :: "(string \<times> json) list \<Rightarrow> string \<Rightarrow> exc + json" where
  "getattr namespace k =
     (case map_of namespace k of None \<Rightarrow> Inl (AttributeError k) | Some v \<Rightarrow> Inr v)"

text \<open>\<^verbatim>\<open>UnsetVolumeType.take_action\<close>, on the namespace the parser built.\<close>

definition UnsetVolumeType_take_action ::
  "volume_client \<Rightarrow> (string \<times> json) list \<Rightarrow> unit outcome" where
  "UnsetVolumeType_take_action volume_client parsed_args =
     (case getattr parsed_args ''volume_type'' of
        Inl e \<Rightarrow> (Inl e, [])
      | Inr ident \<Rightarrow>
          (case find_resource volume_client ident of
             Inl e \<Rightarrow> (Inl e, [FindResource ident])
           | Inr vtype \<Rightarrow>
               (case getattr parsed_args ''property'' of
                  Inl e \<Rightarrow> (Inl e, [FindResource ident])
                | Inr keys \<Rightarrow>
                    (case unset_keys volume_client vtype keys of
                       Inl e \<Rightarrow> (Inl e, [FindResource ident, UnsetKeys (vt_id vtype) keys])
                     | Inr _ \<Rightarrow> (Inr (), [FindResource ident, UnsetKeys (vt_id vtype) keys])))))"

text \<open>
  Running the command: the command line is parsed with the parser of the command, and
  only a namespace that the parser returned reaches \<^verbatim>\<open>take_action\<close>.
\<close>

definition UnsetVolumeType_run :: "volume_client \<Rightarrow> token list \<Rightarrow> unit outcome" where
  "UnsetVolumeType_run volume_client argv =
     (case parse_args UnsetVolumeType_get_parser argv of
        Inl e \<Rightarrow> (Inl e, [])
      | Inr parsed_args \<Rightarrow> UnsetVolumeType_take_action volume_client parsed_args)"

text \<open>
  What a command line of \<^verbatim>\<open>volume type unset\<close> supplies.  \<open>names d opt\<close>: the option
  string \<open>opt\<close> stands for the argument of the parser with destination \<open>d\<close>.  The
  property keys of a command line are the arguments given to the option strings that
  stand for \<^verbatim>\<open>--property\<close>, each glued on with \<^verbatim>\<open>=\<close> or following its option; the
  command line asks for help when an option string on it stands for the help option.
\<close>

definition names :: "string \<Rightarrow> string \<Rightarrow> bool" where
  "names d opt =
     (case resolve UnsetVolumeType_get_parser opt of
        Known a short \<Rightarrow> dest a = d
      | _ \<Rightarrow> False)"

fun property_keys :: "token list \<Rightarrow> string list" where
  "property_keys [] = []"
| "property_keys (Arg s # rest) = property_keys rest"
| "property_keys (Opt opt e # rest) =
     (if names ''property'' opt then
        (case e of
           Some v \<Rightarrow> v # property_keys rest
         | None \<Rightarrow>
             (case rest of
                Arg v # rest' \<Rightarrow> v # property_keys rest'
              | _ \<Rightarrow> property_keys rest))
      else property_keys rest)"

definition asks_help :: "token list \<Rightarrow> bool" where
  "asks_help argv =
     list_ex (\<lambda>t. case t of Opt opt e \<Rightarrow> names ''help'' opt | Arg s \<Rightarrow> False) argv"

section \<open>A mocked remote\<close>

text \<open>
  The examples below run against a remote with three security groups, two of them
  sharing a name, and one volume type; the lookup of an unknown volume type raises
  \<^verbatim>\<open>CommandError\<close>.  A direct fetch answers with the record in its
  envelope or with the keystoneauth \<^verbatim>\<open>NotFound\<close>; the listing answers with all
  three groups in their envelope.
\<close>

definition fake_groups :: "(string \<times> json) list list" where
  "fake_groups =
     [[(''id'', JStr ''1''), (''name'', JStr ''a'')],
      [(''id'', JStr ''2''), (''name'', JStr ''web'')],
      [(''id'', JStr ''3''), (''name'', JStr ''web'')]]"

definition fake_api :: api where
  "fake_api =
     \<lparr> request = (\<lambda>method url body.
         if method = ''GET'' then
           (case filter (\<lambda>g. case map_of g ''id'' of
                                 Some (JStr i) \<Rightarrow> url = ''//os-security-groups/'' @ i
                               | _ \<Rightarrow> False) fake_groups of
              [] \<Rightarrow> Inl KsaNotFound
            | g # _ \<Rightarrow> Inr (JDict [(''security_group'', JDict g)]))
         else (case body of None \<Rightarrow> Inl KsaBadRequest | Some b \<Rightarrow> Inr b)),
       list_call = (\<lambda>path params.
         Inr (JDict [(''security_groups'', JList (map JDict fake_groups))])),
       create_call = (\<lambda>path body. Inr body),
       delete_call = (\<lambda>path. Inr JNull),
       text_of = (\<lambda>v. ''?'') \<rparr>"

text \<open>
  A formatter of the kind \<^verbatim>\<open>format_dict\<close> is used as: it turns a dict into one line
  of text, \<^verbatim>\<open>key='value'\<close> pairs separated by commas.
\<close>

fun render_pairs :: "(string \<times> json) list \<Rightarrow> string" where
  "render_pairs [] = []"
| "render_pairs ((k, v) # kvs) =
     k @ ''='' @ [CHR 0x27] @ (case v of JStr s \<Rightarrow> s | _ \<Rightarrow> ''?'') @ [CHR 0x27]
       @ (if kvs = [] then [] else '', '' @ render_pairs kvs)"

definition gold :: volume_type where
  "gold = \<lparr>vt_id = JStr ''7'',
           vt_info = [(''id'', JStr ''7''), (''name'', JStr ''gold''),
                      (''extra_specs'', JDict []), (''description'', JNull)]\<rparr>"

definition fake_volume_client :: volume_client where
  "fake_volume_client =
     \<lparr> volume_types_create = (\<lambda>name description kwargs.
         Inr \<lparr>vt_id = JStr ''7'',
              vt_info = [(''id'', JStr ''7''), (''name'', JStr name),
                         (''extra_specs'', JDict []),
                         (''description'',
                          case description of None \<Rightarrow> JNull | Some d \<Rightarrow> JStr d)]\<rparr>),
       volume_types_list = Inr [gold],
       volume_types_update = (\<lambda>ident kwargs. Inr ()),
       volume_types_delete = (\<lambda>ident. Inr ()),
       find_resource = (\<lambda>x. if x = JStr ''gold'' \<or> x = JStr ''7'' then Inr gold
                              else Inl (CommandError
                                     (''No volumetype with a name or ID of '' @ [CHR 0x27]
                                      @ (case x of JStr s \<Rightarrow> s | _ \<Rightarrow> [])
                                      @ [CHR 0x27] @ '' exists.''))),
       set_keys = (\<lambda>vt props. Inr (JDict (map (\<lambda>kv. (fst kv, JStr (snd kv))) props))),
       unset_keys = (\<lambda>vt keys. Inr ()),
       format_dict = (\<lambda>d. case d of JDict kvs \<Rightarrow> JStr (render_pairs kvs) | _ \<Rightarrow> JStr []),
       get_item_properties = (\<lambda>vt columns formatters.
         map (\<lambda>c. let v = (case map_of [(''ID'', ''id''), (''Name'', ''name''),
                                          (''Description'', ''description''),
                                          (''Extra Specs'', ''extra_specs'')] c of
                              None \<Rightarrow> JStr []
                            | Some k \<Rightarrow>
                                (case map_of (vt_info vt) k of None \<Rightarrow> JStr [] | Some x \<Rightarrow> x))
                   in case map_of formatters c of None \<Rightarrow> v | Some f \<Rightarrow> f v) columns) \<rparr>"

text \<open>\<^verbatim>\<open>volume type create gold --property foo=bar\<close>, parsed.\<close>

definition gold_args :: create_args where
  "gold_args = \<lparr>create_args.name = ''gold'', description = None, public_flag = False,
                private_flag = False, property = Some [(''foo'', ''bar'')]\<rparr>"

text \<open>The headers of a listing, empty when the listing failed.\<close>

definition column_headers_of :: "(string list \<times> json list list) outcome \<Rightarrow> string list" where
  "column_headers_of out =
     (case fst out of Inl e \<Rightarrow> [] | Inr (column_headers, rows) \<Rightarrow> column_headers)"

section \<open>Properties of the compute API\<close>

subsection \<open>The mocked remote, evaluated\<close>

lemma fake_request_1:
  "request fake_api ''GET'' (''/'' @ ''/os-security-groups'' @ ''/'' @ ''1'') None =
     Inr (JDict [(''security_group'', JDict [(''id'', JStr ''1''), (''name'', JStr ''a'')])])"
  by (simp add: fake_api_def fake_groups_def)

lemma fake_request_missing:
  "request fake_api ''GET'' (''/'' @ ''/os-security-groups'' @ ''/'' @ ''web'') None = Inl KsaNotFound"
  "request fake_api ''GET'' (''/'' @ ''/os-security-groups'' @ ''/'' @ ''zzz'') None = Inl KsaNotFound"
  by (simp_all add: fake_api_def fake_groups_def)


lemma fake_bulk:
  "fst (find_bulk fake_api ''/os-security-groups'' [(''name'', ''zzz'')]) = Inr []"
  by (simp add: find_bulk_def fake_api_def fake_groups_def iterate_def subscript_def)

lemma fake_find_1:
  "find fake_api ''/os-security-groups'' ''1'' (Some ''name'') =
     (Inr (JDict [(''id'', JStr ''1''), (''name'', JStr ''a'')]),
      [Request ''GET'' ''//os-security-groups/1'' None])"
  by (simp add: find_def subscript_def fake_api_def fake_groups_def)

subsection \<open>\<^verbatim>\<open>find\<close>: the direct fetch\<close>

text \<open>
  Claim C1.  When the identifier is the ID of an existing resource, the direct
  \<^verbatim>\<open>GET <path>/<identifier>\<close> answers with a body.  Then \<^verbatim>\<open>find\<close> returns the
  record taken from that body (the value under its first key when it is a dict, the
  body itself otherwise), and the direct request is the only call it makes: no fallback
  search is issued.  The empty dict is no record and is left aside.
\<close>

theorem find_direct_fetch:
  assumes "request a ''GET'' (''/'' @ path @ ''/'' @ value) None = Inr body"
      and "body \<noteq> JDict []"
  shows "find a path value attr =
           (Inr (case body of JDict ((key, record) # rest) \<Rightarrow> record | _ \<Rightarrow> body),
            [Request ''GET'' (''/'' @ path @ ''/'' @ value) None])"
  using assms
  by (auto simp add: find_def subscript_def split: json.splits list.splits)

text \<open>The security group \<^verbatim>\<open>1\<close> of the mocked remote, found by its ID with one request.\<close>

theorem find_direct_fetch_witness:
  "find fake_api ''/os-security-groups'' ''1'' (Some ''name'') =
     (Inr (JDict [(''id'', JStr ''1''), (''name'', JStr ''a'')]),
      [Request ''GET'' ''//os-security-groups/1'' None])"
  using find_direct_fetch [OF fake_request_1, of "Some ''name''"]
  by simp

text \<open>
  Claim C5.  When the body of the direct fetch is a dict with a single key, \<^verbatim>\<open>find\<close>
  returns the value under that key, which is not the enclosing dict.
\<close>

theorem find_strips_envelope:
  assumes "request a ''GET'' (''/'' @ path @ ''/'' @ value) None = Inr (JDict [(key, record)])"
  shows "fst (find a path value attr) = Inr record \<and> record \<noteq> JDict [(key, record)]"
proof -
  have "size record < size (JDict [(key, record)])" by simp
  then have "record \<noteq> JDict [(key, record)]" by (metis less_irrefl)
  with assms show ?thesis by (simp add: find_def subscript_def)
qed

theorem find_strips_envelope_witness:
  "fst (find fake_api ''/os-security-groups'' ''1'' None) =
     Inr (JDict [(''id'', JStr ''1''), (''name'', JStr ''a'')])"
  using find_strips_envelope [OF fake_request_1, of None]
  by simp

subsection \<open>\<^verbatim>\<open>find\<close>: the fallback search\<close>




text \<open>What \<^verbatim>\<open>find\<close> makes of the fallback search, after a direct fetch that missed.\<close>

lemma find_after_miss:
  assumes "request a ''GET'' (''/'' @ path @ ''/'' @ value) None = Inl e"
      and "e = KsaNotFound \<or> e = KsaBadRequest"
  shows "fst (find a path value (Some at)) =
           (case fst (find_bulk a path [(at, value)]) of
              Inl e' \<Rightarrow> Inl (if e' = KsaNotFound then NotFound (value @ '' not found'') else e')
            | Inr [] \<Rightarrow> Inl (NotFound ''none found'')
            | Inr [found] \<Rightarrow> Inr found
            | Inr _ \<Rightarrow> Inl (RuntimeError ''many found''))"
  using assms
  by (auto simp add: find_def find_one_def Let_def split: sum.splits prod.splits list.splits)



text \<open>
  Claim C3.  The claim asks for a \<^verbatim>\<open>NotFound\<close> whose message holds the identifier
  when neither the direct fetch nor the fallback search matches, and lines 61 to 63 are
  there to build it.  They catch the \<^verbatim>\<open>NotFound\<close> of keystoneauth, though, and a
  search without a match raises the \<^verbatim>\<open>NotFound\<close> of osc-lib, another class.  So what
  the code does is this: when the direct fetch fails with \<^verbatim>\<open>NotFound\<close> or
  \<^verbatim>\<open>BadRequest\<close> and the fallback search matches nothing, \<^verbatim>\<open>find\<close> raises
  \<^verbatim>\<open>NotFound\<close> with the message \<^verbatim>\<open>none found\<close>, in which the identifier does not
  occur.
\<close>

theorem find_not_found_message:
  assumes "request a ''GET'' (''/'' @ path @ ''/'' @ value) None = Inl e"
      and "e = KsaNotFound \<or> e = KsaBadRequest"
      and "fst (find_bulk a path [(at, value)]) = Inr []"
  shows "fst (find a path value (Some at)) = Inl (NotFound ''none found'')"
  using find_after_miss [OF assms(1,2), of at] assms(3) by simp

text \<open>
  The identifier \<^verbatim>\<open>zzz\<close> on the mocked remote is no ID and no name: the message is
  \<^verbatim>\<open>none found\<close>, not \<^verbatim>\<open>zzz not found\<close>.
\<close>

theorem find_not_found_message_witness:
  "fst (find fake_api ''/os-security-groups'' ''zzz'' (Some ''name'')) =
     Inl (NotFound ''none found'') \<and>
   ''none found'' \<noteq> ''zzz'' @ '' not found''"
  using find_not_found_message [OF fake_request_missing(2) _ fake_bulk]
  by simp

text \<open>
  The message with the identifier is built when the listing itself is answered with
  the keystoneauth \<^verbatim>\<open>NotFound\<close>.
\<close>

lemma find_listing_not_found:
  assumes "request a ''GET'' (''/'' @ path @ ''/'' @ value) None = Inl e"
      and "e = KsaNotFound \<or> e = KsaBadRequest"
      and "list_call a path [] = Inl KsaNotFound"
  shows "fst (find a path value (Some at)) = Inl (NotFound (value @ '' not found''))"
proof -
  from assms(3) have "fst (find_bulk a path [(at, value)]) = Inl KsaNotFound"
    by (simp add: find_bulk_def)
  with find_after_miss [OF assms(1,2), of at] show ?thesis by simp
qed

subsection \<open>\<^verbatim>\<open>security_group_set\<close>: the merge\<close>

lemma merge_params_keys: "map fst (merge_params d ps) = map fst d"
  by (induction d ps rule: merge_params.induct) (auto simp add: update_keys)

lemma merge_params_untouched:
  "k \<notin> set (map fst ps) \<Longrightarrow> map_of (merge_params d ps) k = map_of d k"
  by (induction d ps rule: merge_params.induct) (auto simp add: update_conv')

lemma merge_params_overwritten:
  "distinct (map fst ps) \<Longrightarrow> (k, v) \<in> set ps \<Longrightarrow> k \<in> set (map fst d) \<Longrightarrow>
   map_of (merge_params d ps) k = Some v"
proof (induction d ps rule: merge_params.induct)
  case (1 d)
  then show ?case by simp
next
  case (2 d k' v' ps)
  show ?case
  proof (cases "(k, v) = (k', v')")
    case True
    with "2.prems" have "k \<notin> set (map fst ps)" by auto
    then have "map_of (merge_params (AList.update k v d) ps) k = map_of (AList.update k v d) k"
      by (rule merge_params_untouched)
    with True "2.prems" show ?thesis by (simp add: update_conv')
  next
    case False
    with "2.prems" have in_ps: "(k, v) \<in> set ps" by auto
    from "2.prems" have d: "distinct (map fst ps)" by simp
    let ?d' = "if k' \<in> set (map fst d) then AList.update k' v' d else d"
    from "2.prems" have "k \<in> set (map fst ?d')" by (simp add: dom_update)
    with "2.IH" d in_ps have "map_of (merge_params ?d' ps) k = Some v" by blast
    then show ?thesis by simp
  qed
qed

text \<open>
  Claim C4.  Let the lookup of \<^verbatim>\<open>security_group_set\<close> fetch a record that has an
  \<^verbatim>\<open>id\<close>, and let the supplied pairs be a dict (no key twice).  Then the call ends with
  one \<^verbatim>\<open>PUT\<close> to the record's ID whose payload carries, under \<^verbatim>\<open>security_group\<close>, a
  record with exactly the keys of the fetched one, in their order: a supplied key that
  the fetched record lacks is not in it, a supplied key that the fetched record has
  holds the supplied value, and every key that was not supplied keeps the fetched
  value.
\<close>

theorem security_group_set_merge:
  assumes "find a ''/os-security-groups'' sg (Some ''name'') = (Inr (JDict record), t)"
      and "distinct (map fst params)"
      and "''id'' \<in> set (map fst record)"
  shows "\<exists>merged ident.
           map_of merged ''id'' = Some ident \<and>
           snd (security_group_set a sg params) =
             t @ [Request ''PUT'' (''//os-security-groups/'' @ fmt a ident)
                    (Some (JDict [(''security_group'', JDict merged)]))] \<and>
           map fst merged = map fst record \<and>
           (\<forall>k v. (k, v) \<in> set params \<and> k \<notin> set (map fst record) \<longrightarrow>
                    k \<notin> set (map fst merged)) \<and>
           (\<forall>k v. (k, v) \<in> set params \<and> k \<in> set (map fst record) \<longrightarrow>
                    map_of merged k = Some v) \<and>
           (\<forall>k. k \<notin> set (map fst params) \<longrightarrow> map_of merged k = map_of record k)"
proof -
  let ?m = "merge_params record params"
  have keys: "map fst ?m = map fst record" by (rule merge_params_keys)
  with assms(3) have "''id'' \<in> set (map fst ?m)" by simp
  then obtain ident where ident: "map_of ?m ''id'' = Some ident"
    by (metis map_of_eq_None_iff not_Some_eq set_map)
  have put: "snd (security_group_set a sg params) =
      t @ [Request ''PUT'' (''//os-security-groups/'' @ fmt a ident)
             (Some (JDict [(''security_group'', JDict ?m)]))]"
    using assms(1) ident
    by (simp add: security_group_set_def subscript_def Let_def split: sum.splits)
  have over: "\<forall>k v. (k, v) \<in> set params \<and> k \<in> set (map fst record) \<longrightarrow> map_of ?m k = Some v"
    using assms(2) merge_params_overwritten by blast
  have rest: "\<forall>k. k \<notin> set (map fst params) \<longrightarrow> map_of ?m k = map_of record k"
    using merge_params_untouched by blast
  from ident put keys over rest show ?thesis by (intro exI[of _ ?m] exI[of _ ident]) simp
qed

text \<open>
  The example of the claim: the record \<^verbatim>\<open>{"id": "1", "name": "a"}\<close> is fetched,
  \<^verbatim>\<open>{"bogus": "x", "name": "b"}\<close> is supplied, and \<^verbatim>\<open>{"id": "1", "name": "b"}\<close> is
  put.
\<close>

theorem security_group_set_merge_witness:
  "snd (security_group_set fake_api ''1'' [(''bogus'', JStr ''x''), (''name'', JStr ''b'')]) =
     [Request ''GET'' ''//os-security-groups/1'' None,
      Request ''PUT'' ''//os-security-groups/1''
        (Some (JDict [(''security_group'', JDict [(''id'', JStr ''1''), (''name'', JStr ''b'')])]))]"
proof -
  let ?params = "[(''bogus'', JStr ''x''), (''name'', JStr ''b'')]"
  let ?fetched = "[(''id'', JStr ''1''), (''name'', JStr ''a'')]"
  have "distinct (map fst ?params)" and "''id'' \<in> set (map fst ?fetched)"
    by simp_all
  from security_group_set_merge [OF fake_find_1 this]
  obtain merged ident where
    ident: "map_of merged ''id'' = Some ident" and
    put: "snd (security_group_set fake_api ''1'' ?params) =
          [Request ''GET'' ''//os-security-groups/1'' None] @
          [Request ''PUT'' (''//os-security-groups/'' @ fmt fake_api ident)
             (Some (JDict [(''security_group'', JDict merged)]))]" and
    keys: "map fst merged = map fst ?fetched" and
    over: "\<forall>k v. (k, v) \<in> set ?params \<and> k \<in> set (map fst ?fetched) \<longrightarrow>
             map_of merged k = Some v" and
    rest: "\<forall>k. k \<notin> set (map fst ?params) \<longrightarrow> map_of merged k = map_of ?fetched k"
    by blast
  from over have name: "map_of merged ''name'' = Some (JStr ''b'')" by simp
  from rest have "map_of merged ''id'' = Some (JStr ''1'')" by simp
  with ident have i: "ident = JStr ''1''" by simp
  from keys obtain v1 v2 where m: "merged = [(''id'', v1), (''name'', v2)]"
    by (auto simp add: map_eq_Cons_conv)
  with name ident i have "merged = [(''id'', JStr ''1''), (''name'', JStr ''b'')]" by simp
  with put i show ?thesis by (simp add: fmt_def)
qed

subsection \<open>\<^verbatim>\<open>security_group_list\<close>: empty filters\<close>

text \<open>
  Claim C8.  \<^verbatim>\<open>security_group_list\<close> with the empty dict of search filters makes the
  same listing call, with the same parameters, and returns the same result as the call
  with no search filters, for every limit and marker.
\<close>

theorem security_group_list_empty_filters:
  "security_group_list a limit marker (Some []) = security_group_list a limit marker None"
  by (simp add: security_group_list_def)

theorem security_group_list_empty_filters_witness:
  "security_group_list fake_api (JInt 10) JNull (Some []) =
   security_group_list fake_api (JInt 10) JNull None"
  using security_group_list_empty_filters [of fake_api "JInt 10" JNull]
  by simp

section \<open>Properties of the volume type commands\<close>

subsection \<open>What \<^verbatim>\<open>show_one\<close> displays\<close>

lemma show_one_pairs:
  assumes "show_one info = Some (ks, vs)"
  shows "set (zip ks vs) = set info" and "set ks = fst ` set info"
proof -
  from assms have k: "ks = map fst (sort_key fst info)" and v: "vs = map snd (sort_key fst info)"
    by (auto simp add: show_one_def Let_def split: if_splits)
  have "zip ks vs = sort_key fst info" unfolding k v by (simp add: zip_map_fst_snd)
  then show "set (zip ks vs) = set info" by simp
  show "set ks = fst ` set info" unfolding k by simp
qed

lemma show_one_nonempty: "info \<noteq> [] \<Longrightarrow> \<exists>ks vs. show_one info = Some (ks, vs)"
proof -
  assume "info \<noteq> []"
  then have "length (sort_key fst info) \<noteq> 0" by simp
  then have "sort_key fst info \<noteq> []" by (simp only: length_0_conv not_False_eq_True)
  then show ?thesis unfolding show_one_def Let_def by auto
qed

lemma fake_create:
  "volume_types_create fake_volume_client (create_args.name gold_args)
     (create_args.description gold_args) (create_kwargs gold_args) =
   Inr \<lparr>vt_id = JStr ''7'',
        vt_info = [(''id'', JStr ''7''), (''name'', JStr ''gold''),
                   (''extra_specs'', JDict []), (''description'', JNull)]\<rparr>"
  by (simp add: fake_volume_client_def gold_args_def)

subsection \<open>\<^verbatim>\<open>CreateVolumeType\<close>: the displayed record\<close>

text \<open>
  Claim C6, as amended.  Let the volume type be created with an \<^verbatim>\<open>extra_specs\<close>
  entry in its record, let properties be given, and let \<^verbatim>\<open>set_keys\<close> answer with a
  result.  Then the command returns a display whose key/value pairs include
  \<^verbatim>\<open>properties\<close> with the value \<^verbatim>\<open>format_dict(result)\<close>, the formatter's rendering of
  what \<^verbatim>\<open>set_keys\<close> returned, and none of whose keys is \<^verbatim>\<open>extra_specs\<close>.
\<close>

theorem create_volume_type_properties:
  assumes "volume_types_create vc (create_args.name args) (create_args.description args)
             (create_kwargs args) = Inr vt"
      and "map_of (vt_info vt) ''extra_specs'' = Some specs"
      and "create_args.property args = Some props" and "props \<noteq> []"
      and "set_keys vc (vt\<lparr>vt_info := filter (\<lambda>kv. fst kv \<noteq> ''extra_specs'') (vt_info vt)\<rparr>) props
             = Inr result"
  shows "\<exists>keys values.
           fst (CreateVolumeType_take_action vc args) = Inr (Some (keys, values)) \<and>
           (''properties'', format_dict vc result) \<in> set (zip keys values) \<and>
           ''extra_specs'' \<notin> set keys"
proof -
  let ?info = "filter (\<lambda>kv. fst kv \<noteq> ''extra_specs'') (vt_info vt)"
  let ?shown = "AList.update ''properties'' (format_dict vc result) ?info"
  have out: "fst (CreateVolumeType_take_action vc args) = Inr (show_one ?shown)"
    using assms by (simp add: CreateVolumeType_take_action_def dict_pop_def Let_def)
  have "?shown \<noteq> []" by (cases ?info) (auto split: if_splits)
  then obtain ks vs where s: "show_one ?shown = Some (ks, vs)"
    using show_one_nonempty by blast
  have "map_of ?shown ''properties'' = Some (format_dict vc result)"
    by (simp add: update_conv')
  then have "(''properties'', format_dict vc result) \<in> set ?shown" by (rule map_of_SomeD)
  then have p: "(''properties'', format_dict vc result) \<in> set (zip ks vs)"
    using show_one_pairs(1) [OF s] by simp
  have "fst ` set ?shown = {''properties''} \<union> fst ` set ?info" by (rule dom_update)
  then have "''extra_specs'' \<notin> fst ` set ?shown" by auto
  then have "''extra_specs'' \<notin> set ks" using show_one_pairs(2) [OF s] by simp
  with out s p show ?thesis by auto
qed

text \<open>
  Creating \<^verbatim>\<open>gold\<close> with \<^verbatim>\<open>foo=bar\<close> on the mocked remote: the display has
  \<^verbatim>\<open>properties\<close> with the text \<^verbatim>\<open>foo='bar'\<close> and no \<^verbatim>\<open>extra_specs\<close>.
\<close>

theorem create_volume_type_properties_witness:
  "\<exists>keys values.
     fst (CreateVolumeType_take_action fake_volume_client gold_args) = Inr (Some (keys, values)) \<and>
     (''properties'', JStr (''foo='' @ [CHR 0x27] @ ''bar'' @ [CHR 0x27])) \<in> set (zip keys values) \<and>
     ''extra_specs'' \<notin> set keys"
proof -
  let ?vt = "\<lparr>vt_id = JStr ''7'',
              vt_info = [(''id'', JStr ''7''), (''name'', JStr ''gold''),
                         (''extra_specs'', JDict []), (''description'', JNull)]\<rparr>"
  have a: "map_of (vt_info ?vt) ''extra_specs'' = Some (JDict [])"
    by simp
  have b: "create_args.property gold_args = Some [(''foo'', ''bar'')]" by (simp add: gold_args_def)
  have c: "[(''foo'', ''bar'')] \<noteq> ([] :: (string \<times> string) list)" by simp
  have d: "set_keys fake_volume_client
             (?vt\<lparr>vt_info := filter (\<lambda>kv. fst kv \<noteq> ''extra_specs'') (vt_info ?vt)\<rparr>)
             [(''foo'', ''bar'')] =
           Inr (JDict [(''foo'', JStr ''bar'')])"
    by (simp add: fake_volume_client_def)
  have e: "format_dict fake_volume_client (JDict [(''foo'', JStr ''bar'')]) =
      JStr (''foo='' @ [CHR 0x27] @ ''bar'' @ [CHR 0x27])"
    by (simp add: fake_volume_client_def)
  from create_volume_type_properties [OF fake_create a b c d] show ?thesis
    unfolding e .
qed

text \<open>
  The claim as it was stated asks for the mapping \<^verbatim>\<open>{"foo": "bar"}\<close> under
  \<^verbatim>\<open>properties\<close>.  On the mocked remote, whose formatter renders a dict as text, the
  field holds the text \<^verbatim>\<open>foo='bar'\<close>, which is not that mapping.
\<close>

theorem create_volume_type_properties_counterexample:
  "fst (CreateVolumeType_take_action fake_volume_client gold_args) =
     Inr (Some ([''description'', ''id'', ''name'', ''properties''],
                [JNull, JStr ''7'', JStr ''gold'',
                 JStr (''foo='' @ [CHR 0x27] @ ''bar'' @ [CHR 0x27])])) \<and>
   JStr (''foo='' @ [CHR 0x27] @ ''bar'' @ [CHR 0x27]) \<noteq> JDict [(''foo'', JStr ''bar'')]"
  by (simp add: CreateVolumeType_take_action_def fake_volume_client_def gold_args_def
      create_kwargs_def dict_pop_def show_one_def)

subsection \<open>\<^verbatim>\<open>ListVolumeType\<close>: the columns\<close>

text \<open>
  Claim C7, as amended.  Whenever the listing succeeds, the headers without
  \<^verbatim>\<open>--long\<close> are \<^verbatim>\<open>ID\<close> and \<^verbatim>\<open>Name\<close>, and with \<^verbatim>\<open>--long\<close> they are the same
  two followed by two more, \<^verbatim>\<open>Description\<close> and \<^verbatim>\<open>Properties\<close>; each row reads the
  matching attributes, \<^verbatim>\<open>Extra Specs\<close> for the column \<^verbatim>\<open>Properties\<close>.
\<close>

theorem list_volume_type_long_columns:
  assumes "volume_types_list vc = Inr data"
  shows "fst (ListVolumeType_take_action vc False) =
           Inr ([''ID'', ''Name''],
                map (\<lambda>s. get_item_properties vc s [''ID'', ''Name'']
                            [(''Extra Specs'', format_dict vc)]) data) \<and>
         fst (ListVolumeType_take_action vc True) =
           Inr ([''ID'', ''Name''] @ [''Description'', ''Properties''],
                map (\<lambda>s. get_item_properties vc s
                            ([''ID'', ''Name''] @ [''Description'', ''Extra Specs''])
                            [(''Extra Specs'', format_dict vc)]) data)"
  using assms by (simp add: ListVolumeType_take_action_def list_columns_def)

theorem list_volume_type_long_columns_witness:
  "column_headers_of (ListVolumeType_take_action fake_volume_client False) = [''ID'', ''Name''] \<and>
   column_headers_of (ListVolumeType_take_action fake_volume_client True) =
     [''ID'', ''Name'', ''Description'', ''Properties'']"
proof -
  have "volume_types_list fake_volume_client = Inr [gold]" by (simp add: fake_volume_client_def)
  from list_volume_type_long_columns [OF this] show ?thesis
    by (simp add: column_headers_of_def)
qed

text \<open>
  The claim as it was stated has the long listing one column wider than the short one.
  On the mocked remote it is two columns wider.
\<close>

theorem list_volume_type_one_column_counterexample:
  "length (column_headers_of (ListVolumeType_take_action fake_volume_client True)) \<noteq>
   length (column_headers_of (ListVolumeType_take_action fake_volume_client False)) + 1"
  by (simp add: column_headers_of_def ListVolumeType_take_action_def list_columns_def
      fake_volume_client_def)

subsection \<open>\<^verbatim>\<open>UnsetVolumeType\<close>: the required option\<close>

text \<open>What an option string can stand for in the parser of the command.\<close>

lemma abbreviations_member:
  "(a, short) \<in> set (abbreviations parser opt) \<Longrightarrow> a \<in> set parser \<and> option_strings a \<noteq> []"
  by (auto simp add: abbreviations_def split: if_splits)

lemma resolve_member:
  assumes "resolve parser opt = Known a short"
  shows "a \<in> set parser \<and> option_strings a \<noteq> []"
proof (cases "exact parser opt")
  case Nil
  with assms have "abbreviations parser opt = [(a, short)]"
    by (auto simp add: resolve_def split: list.splits)
  then have "(a, short) \<in> set (abbreviations parser opt)" by simp
  then show ?thesis by (rule abbreviations_member)
next
  case (Cons b bs)
  with assms have "a = b" by (simp add: resolve_def)
  moreover from Cons have "b \<in> set (exact parser opt)" by simp
  ultimately show ?thesis by (auto simp add: exact_def)
qed

lemma resolve_unset:
  assumes "resolve UnsetVolumeType_get_parser opt = Known a short"
  shows "(dest a = ''help'' \<and> arg_action a = Help) \<or> (dest a = ''property'' \<and> arg_action a = Store)"
  using resolve_member [OF assms]
  by (auto simp add: UnsetVolumeType_get_parser_def Command_get_parser_def)

lemma short_is_short: "s = take 2 opt \<Longrightarrow> length s \<le> 2"
  by simp

lemma resolve_unset_short:
  assumes "resolve UnsetVolumeType_get_parser opt = Known a (Some x)"
  shows "dest a = ''help''"
proof -
  from assms have "exact UnsetVolumeType_get_parser opt = []"
    by (auto simp add: resolve_def split: list.splits)
  with assms have "(a, Some x) \<in> set (abbreviations UnsetVolumeType_get_parser opt)"
    by (auto simp add: resolve_def split: list.splits)
  then show ?thesis
    by (auto simp add: abbreviations_def UnsetVolumeType_get_parser_def Command_get_parser_def
        split: if_splits dest: short_is_short)
qed

lemma consume_errors:
  "consume parser argv state = Inl e \<Longrightarrow> e = HelpExit \<or> (\<exists>msg. e = ParserError msg)"
  by (induction parser argv state rule: consume.induct)
     (auto split: list.splits resolved.splits action.splits option.splits token.splits)

lemma consume_help:
  "parser = UnsetVolumeType_get_parser \<Longrightarrow> consume parser argv state = Inl HelpExit \<Longrightarrow>
   asks_help argv"
proof (induction parser argv state rule: consume.induct)
  case (1 parser state)
  then show ?case by simp
next
  case (2 parser s rest namespace positionals seen extras)
  then show ?case by (auto simp add: asks_help_def split: list.splits)
next
  case (3 parser opt e rest namespace positionals seen extras)
  show ?case
  proof (cases "resolve parser opt")
    case Unknown
    with 3 show ?thesis by (auto simp add: asks_help_def)
  next
    case Ambiguous
    with 3 show ?thesis by simp
  next
    case (Known a short)
    show ?thesis
    proof (cases "arg_action a")
      case Store
      with 3 Known show ?thesis
        by (auto simp add: asks_help_def split: option.splits list.splits token.splits)
    next
      case Help
      with Known "3.prems" resolve_unset [of opt a short] have "names ''help'' opt"
        by (auto simp add: names_def)
      then show ?thesis by (simp add: asks_help_def)
    qed
  qed
qed

lemma consume_seen:
  "parser = UnsetVolumeType_get_parser \<Longrightarrow>
   consume parser argv (namespace, positionals, seen, extras) =
     Inr (namespace', positionals', seen', extras') \<Longrightarrow>
   property_keys argv = [] \<Longrightarrow> ''property'' \<in> set seen' \<Longrightarrow> ''property'' \<in> set seen"
proof (induction parser argv "(namespace, positionals, seen, extras)"
    arbitrary: namespace positionals seen extras rule: consume.induct)
  case (1 parser)
  then show ?case by simp
next
  case (2 parser s rest namespace positionals seen extras)
  then show ?case by (auto split: list.splits)
next
  case (3 parser opt e rest namespace positionals seen extras)
  show ?case
  proof (cases "resolve parser opt")
    case Unknown
    with "3.prems" have "\<not> names ''property'' opt" by (simp add: names_def)
    with 3 Unknown show ?thesis by auto
  next
    case Ambiguous
    with 3 show ?thesis by simp
  next
    case (Known a short)
    show ?thesis
    proof (cases "arg_action a")
      case Help
      with "3.prems" Known show ?thesis by (auto split: option.splits)
    next
      case Store
      with Known "3.prems" resolve_unset [of opt a short] have d: "dest a = ''property''"
        by auto
      with Known "3.prems" have n: "names ''property'' opt" by (simp add: names_def)
      show ?thesis
      proof (cases "explicit_arg short e")
        case (Some v)
        have "short = None"
        proof (cases short)
          case None then show ?thesis .
        next
          case (Some x)
          with Known "3.prems" have "dest a = ''help''" using resolve_unset_short by blast
          with d show ?thesis by simp
        qed
        with Some have "e = Some v" by (simp add: explicit_arg_def)
        with n "3.prems" show ?thesis by simp
      next
        case None
        then have e: "e = None" by (auto simp add: explicit_arg_def split: option.splits)
        show ?thesis
        proof (cases rest)
          case Nil
          with "3.prems" Known Store None show ?thesis by simp
        next
          case (Cons t rest')
          show ?thesis
          proof (cases t)
            case (Arg v)
            with Cons e n "3.prems" show ?thesis by simp
          next
            case (Opt opt' e')
            with Cons "3.prems" Known Store None show ?thesis by simp
          qed
        qed
      qed
    qed
  qed
qed

text \<open>
  An abbreviated option is the option: \<^verbatim>\<open>volume type unset gold --prop foo\<close> looks
  the volume type up and removes the key.
\<close>

lemma unset_abbreviated_option:
  "UnsetVolumeType_run fake_volume_client [Arg ''gold'', Opt ''--prop'' None, Arg ''foo''] =
     (Inr (), [FindResource (JStr ''gold''), UnsetKeys (JStr ''7'') (JStr ''foo'')])"
  by (simp add: UnsetVolumeType_run_def parse_args_def UnsetVolumeType_get_parser_def
      Command_get_parser_def resolve_def exact_def abbreviations_def explicit_arg_def
      UnsetVolumeType_take_action_def getattr_def fake_volume_client_def gold_def)

text \<open>
  Claim C9, as amended.  A command line that supplies no property key never gets past
  the parser of \<^verbatim>\<open>volume type unset\<close>, and the run makes no call at all, neither
  the lookup of the volume type nor the removal of keys.  The run ends as a usage error
  of the parser; only a command line that asks for help can end instead with the help
  printed.
\<close>

theorem unset_requires_property:
  assumes "property_keys argv = []"
  shows "\<exists>e. UnsetVolumeType_run vc argv = (Inl e, []) \<and>
             (if asks_help argv then e = HelpExit \<or> (\<exists>msg. e = ParserError msg)
              else (\<exists>msg. e = ParserError msg))"
proof -
  let ?P = "UnsetVolumeType_get_parser"
  let ?start = "([(''volume_type'', JNull), (''property'', JList [])], [''volume_type''], [], False)"
  have start: "parse_args ?P argv =
      (case consume ?P argv ?start of
           Inl e \<Rightarrow> Inl e
         | Inr (namespace, missing, seen, extras) \<Rightarrow>
             if missing \<noteq> [] then Inl (ParserError ''too few arguments'')
             else if ''property'' \<notin> set seen
             then Inl (ParserError ''argument is required'')
             else if extras then Inl (ParserError ''unrecognized arguments'')
             else Inr namespace)"
    by (simp add: parse_args_def UnsetVolumeType_get_parser_def Command_get_parser_def
        split: sum.splits)
  have "\<exists>e. parse_args ?P argv = Inl e \<and>
             (if asks_help argv then e = HelpExit \<or> (\<exists>msg. e = ParserError msg)
              else (\<exists>msg. e = ParserError msg))"
  proof (cases "consume ?P argv ?start")
    case (Inl e)
    then have kind: "e = HelpExit \<or> (\<exists>msg. e = ParserError msg)" by (rule consume_errors)
    have "e = HelpExit \<Longrightarrow> asks_help argv" using Inl consume_help by blast
    with kind Inl start show ?thesis by auto
  next
    case (Inr final)
    obtain namespace missing seen extras where f: "final = (namespace, missing, seen, extras)"
      by (cases final) auto
    from Inr f assms have "''property'' \<in> set seen \<Longrightarrow> ''property'' \<in> set []"
      using consume_seen [of ?P argv _ _ "[]" False namespace missing seen extras] by blast
    then have "''property'' \<notin> set seen" by auto
    with Inr f start show ?thesis by auto
  qed
  then show ?thesis by (auto simp add: UnsetVolumeType_run_def)
qed

text \<open>
  No \<^verbatim>\<open>--property\<close> at all, and \<^verbatim>\<open>--property\<close> with nothing after it: both are
  usage errors, without a call.
\<close>

theorem unset_requires_property_witness:
  "UnsetVolumeType_run fake_volume_client [Arg ''gold''] =
     (Inl (ParserError ''argument is required''), []) \<and>
   UnsetVolumeType_run fake_volume_client [Arg ''gold'', Opt ''--property'' None] =
     (Inl (ParserError ''expected one argument''), [])"
proof -
  have k1: "property_keys [Arg ''gold''] = []" by simp
  have k2: "property_keys [Arg ''gold'', Opt ''--property'' None] = []" by simp
  from unset_requires_property [OF k1, of fake_volume_client]
  obtain e1 where r1: "UnsetVolumeType_run fake_volume_client [Arg ''gold''] = (Inl e1, [])"
    by blast
  from unset_requires_property [OF k2, of fake_volume_client]
  obtain e2 where r2: "UnsetVolumeType_run fake_volume_client [Arg ''gold'', Opt ''--property'' None] = (Inl e2, [])"
    by blast
  have v1: "fst (UnsetVolumeType_run fake_volume_client [Arg ''gold'']) =
      Inl (ParserError ''argument is required'')"
    by (simp add: UnsetVolumeType_run_def parse_args_def UnsetVolumeType_get_parser_def
        Command_get_parser_def)
  have v2: "fst (UnsetVolumeType_run fake_volume_client [Arg ''gold'', Opt ''--property'' None]) =
      Inl (ParserError ''expected one argument'')"
    by (simp add: UnsetVolumeType_run_def parse_args_def UnsetVolumeType_get_parser_def
        Command_get_parser_def resolve_def exact_def explicit_arg_def)
  from r1 r2 v1 v2 show ?thesis by simp
qed

text \<open>
  The claim as it was stated has every such command line rejected.  With the help
  option and no property key the parser prints the help and leaves with status 0,
  which is no rejection.
\<close>

theorem unset_help_counterexample:
  "property_keys [Arg ''gold'', Opt ''--help'' None] = [] \<and>
   UnsetVolumeType_run fake_volume_client [Arg ''gold'', Opt ''--help'' None] = (Inl HelpExit, [])"
  by (simp add: UnsetVolumeType_run_def parse_args_def UnsetVolumeType_get_parser_def
      Command_get_parser_def resolve_def exact_def explicit_arg_def names_def)

subsection \<open>\<^verbatim>\<open>SetVolumeType\<close>: nothing to change\<close>

text \<open>
  Claim C10, as amended.  With none of \<^verbatim>\<open>--name\<close>, \<^verbatim>\<open>--description\<close> and
  \<^verbatim>\<open>--property\<close> given, \<^verbatim>\<open>SetVolumeType.take_action\<close> first looks the volume type
  up.  When the lookup raises, the command fails with that very exception, whatever its
  class, and the lookup is its only call; when it succeeds, the command writes
  \<^verbatim>\<open>No changes requested\<close> to the log after the lookup and returns.  Either way there
  is no update call and no \<^verbatim>\<open>set_keys\<close> call.
\<close>

theorem set_volume_type_no_changes:
  assumes "set_args.name args = None" and "set_args.description args = None"
      and "set_args.property args = None"
  shows "SetVolumeType_take_action vc args =
           (case find_resource vc (JStr (set_args.volume_type args)) of
              Inl e \<Rightarrow> (Inl e, [FindResource (JStr (set_args.volume_type args))])
            | Inr vtype \<Rightarrow>
                (Inr (), [FindResource (JStr (set_args.volume_type args)),
                          LogError (''No changes requested'' @ [CHR 0x0A])]))"
  using assms
  by (simp add: SetVolumeType_take_action_def given_str_def given_dict_def Let_def
      split: sum.splits)

text \<open>
  On the mocked remote: \<^verbatim>\<open>gold\<close> exists and the message is logged; \<^verbatim>\<open>silver\<close> does
  not, and the exception of the lookup comes out.
\<close>

theorem set_volume_type_no_changes_witness:
  "SetVolumeType_take_action fake_volume_client
     \<lparr>volume_type = ''gold'', name = None, description = None, property = None\<rparr> =
     (Inr (), [FindResource (JStr ''gold''), LogError (''No changes requested'' @ [CHR 0x0A])]) \<and>
   (\<exists>e. SetVolumeType_take_action fake_volume_client
           \<lparr>volume_type = ''silver'', name = None, description = None, property = None\<rparr> =
         (Inl e, [FindResource (JStr ''silver'')]))"
  using set_volume_type_no_changes
          [of "\<lparr>volume_type = ''gold'', name = None, description = None, property = None\<rparr>"
              fake_volume_client]
        set_volume_type_no_changes
          [of "\<lparr>volume_type = ''silver'', name = None, description = None, property = None\<rparr>"
              fake_volume_client]
  by (simp add: fake_volume_client_def)

text \<open>
  The claim as it was stated has the lookup of a missing volume type fail with
  \<^verbatim>\<open>NotFound\<close>.  The lookup is \<^verbatim>\<open>utils.find_resource\<close>, which reports a missing
  resource with \<^verbatim>\<open>CommandError\<close>, as the mocked remote does; that is what the
  command fails with.
\<close>

theorem set_volume_type_not_found_counterexample:
  "SetVolumeType_take_action fake_volume_client
     \<lparr>volume_type = ''silver'', name = None, description = None, property = None\<rparr> =
     (Inl (CommandError (''No volumetype with a name or ID of '' @ [CHR 0x27] @ ''silver''
                          @ [CHR 0x27] @ '' exists.'')),
      [FindResource (JStr ''silver'')])"
  by (simp add: SetVolumeType_take_action_def fake_volume_client_def)

end
